theory Spec2Isabelle
  imports Main "HOL-Library.AList"
begin

section \<open>Conventions of the embedding\<close>

text \<open>
  The repository is a collection of independent TypeScript demonstrations of design
  patterns. Each one is embedded on its own:

  \<^item> a JavaScript string is a \<^typ>\<open>string\<close>, and \<open>===\<close> on strings is equality;
  \<^item> a JavaScript number is an \<^typ>\<open>int\<close> (the programs only add and compare integers);
  \<^item> an object is identified by a reference (a natural number handed out by \<open>new\<close>),
    so that reference equality of objects is equality of references;
  \<^item> a field that was never assigned holds \<open>undefined\<close>, modelled as \<^const>\<open>None\<close>;
  \<^item> \<open>console.log\<close> appends one line to a console, a list of strings, which is passed
    through every function that prints;
  \<^item> a thrown exception is the left summand of a sum type.
\<close>

type_synonym ref = nat

type_synonym console = "string list"

definition console_log :: "string \<Rightarrow> console \<Rightarrow> console" where
  "console_log line out = out @ [line]"

datatype error = TypeError


section \<open>Factory (src/Creational/factory.ts)\<close>

datatype button = IOSButton | AndroidButton

text \<open>\<open>createButton\<close> returns a fresh object of one of the two classes; the model keeps
  the class of the returned object.\<close>

definition createButton :: "string \<Rightarrow> button" where
  "createButton os = (if os = ''ios'' then IOSButton else AndroidButton)"


section \<open>Iterator (the \<open>range\<close> function)\<close>

text \<open>
  \<open>range(start, end, step = 1)\<close> returns an object whose \<open>next\<close> method closes over the
  three parameters and assigns to \<open>start\<close>. The closure's variables are the state of the
  iterator. An omitted third argument is \<^const>\<open>None\<close> and takes the default 1.
\<close>

record range_state =
  start :: int
  endv :: int
  step :: int

record iter_result =
  res_value :: int
  res_done :: bool

definition range_it :: "int \<Rightarrow> int \<Rightarrow> int option \<Rightarrow> range_state" where
  "range_it start0 end0 step0 =
     \<lparr>start = start0, endv = end0, step = (case step0 of None \<Rightarrow> 1 | Some k \<Rightarrow> k)\<rparr>"

definition next_it :: "range_state \<Rightarrow> iter_result \<times> range_state" where
  "next_it it =
     (if start it < endv it
      then (let it' = it\<lparr>start := start it + step it\<rparr>
            in (\<lparr>res_value = start it', res_done = False\<rparr>, it'))
      else (\<lparr>res_value = endv it, res_done = True\<rparr>, it))"

text \<open>A client that calls \<open>next()\<close> \<open>n\<close> times in a row on the same iterator: the results
  in call order, and the iterator afterwards.\<close>

fun next_calls :: "nat \<Rightarrow> range_state \<Rightarrow> iter_result list \<times> range_state" where
  "next_calls 0 it = ([], it)"
| "next_calls (Suc n) it =
     (let (r, it') = next_it it; (rs, it'') = next_calls n it' in (r # rs, it''))"


section \<open>Singleton (\<open>ApplicationSettings\<close>)\<close>

text \<open>
  The state of the program is the static field \<open>ApplicationSettings.instance\<close> and the
  objects that the (private) constructor has built so far, in order of construction; the
  reference of an object is its index in that list.
\<close>

record ApplicationSettings =
  applicationTheme :: string

record settings_program =
  static_instance :: "ref option"
  constructed :: "ApplicationSettings list"

definition settings_initial :: settings_program where
  "settings_initial = \<lparr>static_instance = None, constructed = []\<rparr>"

definition new_ApplicationSettings :: "settings_program \<Rightarrow> ref \<times> settings_program" where
  "new_ApplicationSettings s =
     (length (constructed s),
      s\<lparr>constructed := constructed s @ [\<lparr>applicationTheme = ''dark''\<rparr>]\<rparr>)"

definition getInstance :: "settings_program \<Rightarrow> ref option \<times> settings_program" where
  "getInstance s =
     (let s' = (if static_instance s = None
                then (let (r, s1) = new_ApplicationSettings s
                      in s1\<lparr>static_instance := Some r\<rparr>)
                else s)
      in (static_instance s', s'))"

text \<open>
  The field \<open>instance\<close> is declared \<open>static\<close> without \<open>private\<close> or \<open>readonly\<close>, so code
  outside the class can assign to it; the private constructor keeps such code from
  building an object, so what it can store is \<open>undefined\<close> or a reference it has.
\<close>

definition assign_instance :: "ref option \<Rightarrow> settings_program \<Rightarrow> settings_program" where
  "assign_instance v s = s\<lparr>static_instance := v\<rparr>"

text \<open>
  A process is a sequence of steps, each a call \<open>ApplicationSettings.getInstance()\<close> or
  an assignment \<open>ApplicationSettings.instance = v\<close>. Running it gives the values the calls
  returned, in call order, and the state afterwards.
\<close>

datatype settings_step = GetInstance | AssignInstance "ref option"

fun run_settings ::
  "settings_step list \<Rightarrow> settings_program \<Rightarrow> ref option list \<times> settings_program" where
  "run_settings [] s = ([], s)"
| "run_settings (GetInstance # steps) s =
     (let (r, s') = getInstance s; (rs, s'') = run_settings steps s' in (r # rs, s''))"
| "run_settings (AssignInstance v # steps) s = run_settings steps (assign_instance v s)"


section \<open>Chain of responsibility (\<open>Handler\<close>, \<open>AbstractHandler\<close> and its subclasses)\<close>

text \<open>
  Handlers are objects on a heap: the list of all handlers built so far, a reference
  being an index into it. A handler has its class and the private field \<open>nextHandler\<close>,
  which is \<open>undefined\<close> until \<open>setNext\<close> assigns it.
\<close>

datatype handler_class = MonkeyHandler | SquirrelHandler | DogHandler

record handler_obj =
  handler_cls :: handler_class
  nextHandler :: "ref option"

type_synonym handler_heap = "handler_obj list"

definition new_handler :: "handler_class \<Rightarrow> handler_heap \<Rightarrow> ref \<times> handler_heap" where
  "new_handler c h = (length h, h @ [\<lparr>handler_cls = c, nextHandler = None\<rparr>])"

definition setNext :: "ref \<Rightarrow> ref \<Rightarrow> handler_heap \<Rightarrow> ref \<times> handler_heap" where
  "setNext this handler h = (handler, h[this := (h ! this)\<lparr>nextHandler := Some handler\<rparr>])"

text \<open>The test each concrete \<open>handle\<close> makes on the request, and the string it returns when
  the test succeeds.\<close>

fun handles :: "handler_class \<Rightarrow> string \<Rightarrow> bool" where
  "handles MonkeyHandler request = (request = ''Banana'')"
| "handles SquirrelHandler request = (request = ''Nut'')"
| "handles DogHandler request = (request = ''MeatBall'')"

fun reply :: "handler_class \<Rightarrow> string \<Rightarrow> string" where
  "reply MonkeyHandler request = ''Monkey: I'll eat the '' @ request @ ''.''"
| "reply SquirrelHandler request = ''Squirrel: I'll eat the '' @ request @ ''.''"
| "reply DogHandler request = ''Dog: I'll eat the '' @ request @ ''.''"

text \<open>
  \<open>handle\<close> of a concrete handler returns its reply when its test succeeds and calls
  \<open>super.handle\<close> otherwise; \<open>AbstractHandler.handle\<close> calls \<open>handle\<close> of the next
  handler when there is one and returns \<open>null\<close> (\<^const>\<open>None\<close>) when there is none. The
  recursion follows the \<open>nextHandler\<close> references, which may form a cycle, so the call
  need not return: the outer \<^typ>\<open>'a option\<close> is \<^const>\<open>None\<close> when it does not (or
  when \<open>this\<close> is not a handler of the heap, which no program can arrange).

  The last argument is a record of the call, not a value of the program: the handlers
  whose test has been evaluated so far, in order.
\<close>

partial_function (option) handle ::
  "handler_heap \<Rightarrow> ref \<Rightarrow> string \<Rightarrow> ref list \<Rightarrow> (string option \<times> ref list) option" where
  "handle h this request consulted =
     (if this < length h
      then (let obj = h ! this; consulted' = consulted @ [this]
            in if handles (handler_cls obj) request
               then Some (Some (reply (handler_cls obj) request), consulted')
               else (case nextHandler obj of
                       Some successor \<Rightarrow> handle h successor request consulted'
                     | None \<Rightarrow> Some (None, consulted')))
      else None)"

declare handle.simps [code]

text \<open>The chain the script builds: three handlers, then
  \<open>monkey.setNext(squirrel).setNext(dog)\<close>. The result is the heap and the three
  references.\<close>

definition monkey_squirrel_dog :: "handler_heap \<times> ref \<times> ref \<times> ref" where
  "monkey_squirrel_dog =
     (let (monkey, h1) = new_handler MonkeyHandler [];
          (squirrel, h2) = new_handler SquirrelHandler h1;
          (dog, h3) = new_handler DogHandler h2;
          (linked, h4) = setNext monkey squirrel h3;
          (linked', h5) = setNext linked dog h4
      in (h5, monkey, squirrel, dog))"


section \<open>The buffet chain (\<open>AbstractBuffet\<close> and its subclasses)\<close>

text \<open>
  A buffet keeps a reference to the array it was constructed with, and \<open>push\<close> changes
  that array in place, so arrays live on a heap of their own. A field declared again in a
  subclass without an initialiser (\<open>menu\<close> in \<open>MexicanFoodBuffet\<close>) leaves the inherited
  field as the constructor of the base class set it.
\<close>

datatype buffet_class = JapaneseFoodBuffet | MexicanFoodBuffet

record buffet_obj =
  buffet_cls :: buffet_class
  nextBuffet :: "ref option"
  menu :: ref

record buffet_heap =
  buffets :: "buffet_obj list"
  arrays :: "string list list"

definition new_array :: "string list \<Rightarrow> buffet_heap \<Rightarrow> ref \<times> buffet_heap" where
  "new_array xs h = (length (arrays h), h\<lparr>arrays := arrays h @ [xs]\<rparr>)"

definition new_buffet :: "buffet_class \<Rightarrow> ref \<Rightarrow> buffet_heap \<Rightarrow> ref \<times> buffet_heap" where
  "new_buffet c menu0 h =
     (length (buffets h),
      h\<lparr>buffets := buffets h @ [\<lparr>buffet_cls = c, nextBuffet = None, menu = menu0\<rparr>]\<rparr>)"

definition passToNextBuffet :: "ref \<Rightarrow> ref \<Rightarrow> buffet_heap \<Rightarrow> ref \<times> buffet_heap" where
  "passToNextBuffet this successor h =
     (successor,
      h\<lparr>buffets := (buffets h)[this := (buffets h ! this)\<lparr>nextBuffet := Some successor\<rparr>]\<rparr>)"

text \<open>The condition of each concrete \<open>addToMenu\<close>. In JavaScript \<open>&&\<close> binds tighter than
  \<open>||\<close>, so \<open>a || b && !c\<close> is \<open>a || (b && !c)\<close>.\<close>

fun accepts :: "buffet_class \<Rightarrow> string \<Rightarrow> string list \<Rightarrow> bool" where
  "accepts JapaneseFoodBuffet foodType this_menu =
     (foodType = ''Sushi'' \<or> (foodType = ''Yakimeshi'' \<and> \<not> (foodType \<in> set this_menu)))"
| "accepts MexicanFoodBuffet foodType this_menu =
     (foodType = ''Tacos'' \<or> (foodType = ''Enchiladas'' \<and> \<not> (foodType \<in> set this_menu)))"

fun added :: "buffet_class \<Rightarrow> string \<Rightarrow> string" where
  "added JapaneseFoodBuffet foodType =
     ''JapaneseFoodBuffet: I'll add the '' @ foodType @ '' to my menu.''"
| "added MexicanFoodBuffet foodType =
     ''MexicanFoodBuffet: I'll add the '' @ foodType @ '' to my menu.''"

text \<open>\<open>addToMenu\<close> returns the string (or \<open>null\<close>) and the heap after the call. As for
  \<open>handle\<close>, the outer \<^const>\<open>None\<close> is a call that does not return.\<close>

partial_function (option) addToMenu ::
  "buffet_heap \<Rightarrow> ref \<Rightarrow> string \<Rightarrow> (string option \<times> buffet_heap) option" where
  "addToMenu h this foodType =
     (if this < length (buffets h) \<and> menu (buffets h ! this) < length (arrays h)
      then (let obj = buffets h ! this; this_menu = arrays h ! menu obj
            in if accepts (buffet_cls obj) foodType this_menu
               then Some (Some (added (buffet_cls obj) foodType),
                          h\<lparr>arrays := (arrays h)[menu obj := this_menu @ [foodType]]\<rparr>)
               else (case nextBuffet obj of
                       Some successor \<Rightarrow> addToMenu h successor foodType
                     | None \<Rightarrow> Some (None, h)))
      else None)"

declare addToMenu.simps [code]

text \<open>
  The chain of the script, \<open>japaneseFoodBuffet.passToNextBuffet(mexicanFoodBuffet)\<close>, with
  the two menus holding \<open>japanese_menu\<close> and \<open>mexican_menu\<close>. The script starts from two
  empty arrays; other contents are the chain after earlier calls.
\<close>

definition buffet_chain :: "string list \<Rightarrow> string list \<Rightarrow> buffet_heap \<times> ref \<times> ref" where
  "buffet_chain japanese_menu mexican_menu =
     (let (a1, h1) = new_array japanese_menu \<lparr>buffets = [], arrays = []\<rparr>;
          (japaneseFoodBuffet, h2) = new_buffet JapaneseFoodBuffet a1 h1;
          (a2, h3) = new_array mexican_menu h2;
          (mexicanFoodBuffet, h4) = new_buffet MexicanFoodBuffet a2 h3;
          (linked, h5) = passToNextBuffet japaneseFoodBuffet mexicanFoodBuffet h4
      in (h5, japaneseFoodBuffet, mexicanFoodBuffet))"


section \<open>Command (\<open>Invoker\<close> and \<open>SalesDepartment\<close>)\<close>

text \<open>
  A command object is determined by its class and the values its constructor stored. The
  receivers (\<open>Receiver\<close>, \<open>Client\<close>) have no fields. Every method here only prints, so a
  method takes the console and returns it with its lines appended.
\<close>

datatype receiver = Receiver

definition doSomething :: "receiver \<Rightarrow> string \<Rightarrow> console \<Rightarrow> console" where
  "doSomething this a out = console_log (''Receiver: Working on ('' @ a @ ''.)'') out"

definition doSomethingElse :: "receiver \<Rightarrow> string \<Rightarrow> console \<Rightarrow> console" where
  "doSomethingElse this b out = console_log (''Receiver: Also working on ('' @ b @ ''.)'') out"

datatype command = SimpleCommand string | ComplexCommand receiver string string

fun execute :: "command \<Rightarrow> console \<Rightarrow> console" where
  "execute (SimpleCommand payload) out =
     console_log (''SimpleCommand: See, I can do simple things like printing ('' @ payload @ '')'') out"
| "execute (ComplexCommand r a b) out =
     doSomethingElse r b
       (doSomething r a
          (console_log ''ComplexCommand: Complex stuff should be done by a receiver object.'' out))"

text \<open>
  The two slots of an invoker are fields without initialiser: they hold \<open>undefined\<close>
  (\<^const>\<open>None\<close>) until their setter is called.
\<close>

record Invoker =
  onStart :: "command option"
  onFinish :: "command option"

definition new_Invoker :: Invoker where
  "new_Invoker = \<lparr>onStart = None, onFinish = None\<rparr>"

definition setOnStart :: "command \<Rightarrow> Invoker \<Rightarrow> Invoker" where
  "setOnStart c this = this\<lparr>onStart := Some c\<rparr>"

definition setOnFinish :: "command \<Rightarrow> Invoker \<Rightarrow> Invoker" where
  "setOnFinish c this = this\<lparr>onFinish := Some c\<rparr>"

text \<open>
  \<open>isCommand(object)\<close> is \<open>object.execute !== undefined\<close>. Reading a property of
  \<open>undefined\<close> throws a \<open>TypeError\<close>; a command object has the method \<open>execute\<close>, so for
  it the comparison is true.
\<close>

definition isCommand :: "command option \<Rightarrow> error + bool" where
  "isCommand object = (case object of None \<Rightarrow> Inl TypeError | Some c \<Rightarrow> Inr True)"

text \<open>\<open>slot.execute()\<close>: the call on the value of a slot (a \<open>TypeError\<close> on \<open>undefined\<close>).\<close>

definition call_execute :: "command option \<Rightarrow> console \<Rightarrow> (error + unit) \<times> console" where
  "call_execute slot out =
     (case slot of None \<Rightarrow> (Inl TypeError, out) | Some c \<Rightarrow> (Inr (), execute c out))"

text \<open>The result of \<open>doSomethingImportant\<close> is the exception it ends with, or a normal
  return, together with the console as the call leaves it.\<close>

definition doSomethingImportant :: "Invoker \<Rightarrow> console \<Rightarrow> (error + unit) \<times> console" where
  "doSomethingImportant this out =
     (let out1 = console_log ''Invoker: Does anybody want something done before I begin?'' out
      in case isCommand (onStart this) of
           Inl e \<Rightarrow> (Inl e, out1)
         | Inr is_start \<Rightarrow>
             (case (if is_start then call_execute (onStart this) out1 else (Inr (), out1)) of
                (Inl e, out2) \<Rightarrow> (Inl e, out2)
              | (Inr u, out2) \<Rightarrow>
                  (let out3 = console_log ''Invoker: ...doing something really important...'' out2;
                       out4 = console_log ''Invoker: Does anybody want something done after I finish?'' out3
                   in case isCommand (onFinish this) of
                        Inl e \<Rightarrow> (Inl e, out4)
                      | Inr is_finish \<Rightarrow>
                          (if is_finish then call_execute (onFinish this) out4
                           else (Inr (), out4)))))"

text \<open>The second example: administrative actions and the sales department.\<close>

datatype client = Client

definition performSpecificClientActions :: "client \<Rightarrow> string list \<Rightarrow> console \<Rightarrow> console" where
  "performSpecificClientActions this clientSpecificActions out =
     foldl (\<lambda>acc action. console_log (''Action: '' @ action @ '' has been performed'') acc)
       out clientSpecificActions"

definition notifyAboutPackageDelivery :: "client \<Rightarrow> string \<Rightarrow> console \<Rightarrow> console" where
  "notifyAboutPackageDelivery this clientAddress out =
     console_log (''Client with address '' @ clientAddress @
                  '' has been notified about the delivery'') out"

datatype administrative_action =
  ReceiveItems "string list" | SendItem client "string list" string

text \<open>In the last line of \<open>SendItem\<close> the template literal converts the client object to a
  string, which for an object without \<open>toString\<close> of its own is \<open>[object Object]\<close>.\<close>

fun performAdministrativeAction :: "administrative_action \<Rightarrow> console \<Rightarrow> console" where
  "performAdministrativeAction (ReceiveItems its) out =
     foldl (\<lambda>acc item. console_log (''Item: '' @ item @ '' has been added to the DB'') acc)
       (console_log ''Adding items to DB.''
          (console_log ''Items received.'' (console_log ''Receiving items...'' out)))
       its"
| "performAdministrativeAction (SendItem c clientSpecificActions clientAddress) out =
     console_log ''Item has been sent to client: [object Object]''
       (console_log ''Sending Item...''
          (notifyAboutPackageDelivery c clientAddress
             (performSpecificClientActions c clientSpecificActions
                (console_log ''ComplexCommand: Complex stuff should be done by a client object.''
                   out))))"

record SalesDepartment =
  receiveItems :: "administrative_action option"
  sendItem :: "administrative_action option"

definition new_SalesDepartment :: SalesDepartment where
  "new_SalesDepartment = \<lparr>receiveItems = None, sendItem = None\<rparr>"

definition setReceiveItems :: "administrative_action \<Rightarrow> SalesDepartment \<Rightarrow> SalesDepartment" where
  "setReceiveItems adminAction this = this\<lparr>receiveItems := Some adminAction\<rparr>"

definition setSendItem :: "administrative_action \<Rightarrow> SalesDepartment \<Rightarrow> SalesDepartment" where
  "setSendItem adminAction this = this\<lparr>sendItem := Some adminAction\<rparr>"

text \<open>\<open>SalesDepartment.isCommand(adminAction)\<close> is
  \<open>adminAction.performAdministrativeAction !== undefined\<close>.\<close>

definition isAdministrativeAction :: "administrative_action option \<Rightarrow> error + bool" where
  "isAdministrativeAction adminAction =
     (case adminAction of None \<Rightarrow> Inl TypeError | Some a \<Rightarrow> Inr True)"

definition call_performAdministrativeAction ::
  "administrative_action option \<Rightarrow> console \<Rightarrow> (error + unit) \<times> console" where
  "call_performAdministrativeAction slot out =
     (case slot of
        None \<Rightarrow> (Inl TypeError, out)
      | Some a \<Rightarrow> (Inr (), performAdministrativeAction a out))"

definition receiveABunchOfItems :: "SalesDepartment \<Rightarrow> console \<Rightarrow> (error + unit) \<times> console" where
  "receiveABunchOfItems this out =
     (case isAdministrativeAction (receiveItems this) of
        Inl e \<Rightarrow> (Inl e, out)
      | Inr is_action \<Rightarrow>
          (if is_action then call_performAdministrativeAction (receiveItems this) out
           else (Inr (), out)))"

definition sendAnItem :: "SalesDepartment \<Rightarrow> console \<Rightarrow> (error + unit) \<times> console" where
  "sendAnItem this out =
     (case isAdministrativeAction (sendItem this) of
        Inl e \<Rightarrow> (Inl e, out)
      | Inr is_action \<Rightarrow>
          (if is_action then call_performAdministrativeAction (sendItem this) out
           else (Inr (), out)))"

text \<open>The sales department as the script sets it up: \<open>setReceiveItems\<close> is called twice and
  \<open>setSendItem\<close> never.\<close>

definition salesDepartment :: SalesDepartment where
  "salesDepartment =
     setReceiveItems
       (SendItem Client [''Notify through Email'', ''Add special gift card''] ''Some Address in NY'')
       (setReceiveItems (ReceiveItems [''item1'', ''item2'', ''item3'']) new_SalesDepartment)"


section \<open>Template method (\<open>AbstractClass\<close>, \<open>ConcreteClass1\<close>, \<open>ConcreteClass2\<close>)\<close>

text \<open>
  The steps of the template method print at most one line each, and a hook that is not
  overridden prints nothing, so the console alone does not show which steps ran. A run is
  therefore recorded as a list of events: \<open>Call s\<close> when the method of step \<open>s\<close> is
  entered, and \<open>Print l\<close> for each line it gives to \<open>console.log\<close>.
\<close>

datatype step =
  BaseOperation1 | RequiredOperations1 | BaseOperation2 | Hook1 | RequiredOperation2
  | BaseOperation3 | Hook2

datatype event = Call step | Print string

type_synonym run = "event list"

datatype concrete_class = ConcreteClass1 | ConcreteClass2

definition baseOperation1 :: "run \<Rightarrow> run" where
  "baseOperation1 t =
     t @ [Call BaseOperation1, Print ''AbstractClass says: I am doing the bulk of the work'']"

definition baseOperation2 :: "run \<Rightarrow> run" where
  "baseOperation2 t =
     t @ [Call BaseOperation2,
          Print ''AbstractClass says: But I let subclasses override some operations'']"

definition baseOperation3 :: "run \<Rightarrow> run" where
  "baseOperation3 t =
     t @ [Call BaseOperation3,
          Print ''AbstractClass says: But I am doing the bulk of the work anyway'']"

text \<open>The abstract and the hook steps are dispatched on the class of \<open>this\<close>:
  \<open>ConcreteClass1\<close> inherits both empty hooks, \<open>ConcreteClass2\<close> overrides \<open>hook1\<close>.\<close>

fun requiredOperations1 :: "concrete_class \<Rightarrow> run \<Rightarrow> run" where
  "requiredOperations1 ConcreteClass1 t =
     t @ [Call RequiredOperations1, Print ''ConcreteClass1 says: Implemented Operation1'']"
| "requiredOperations1 ConcreteClass2 t =
     t @ [Call RequiredOperations1, Print ''ConcreteClass2 says: Implemented Operation1'']"

fun requiredOperation2 :: "concrete_class \<Rightarrow> run \<Rightarrow> run" where
  "requiredOperation2 ConcreteClass1 t =
     t @ [Call RequiredOperation2, Print ''ConcreteClass1 says: Implemented Operation2'']"
| "requiredOperation2 ConcreteClass2 t =
     t @ [Call RequiredOperation2, Print ''ConcreteClass2 says: Implemented Operation2'']"

fun hook1 :: "concrete_class \<Rightarrow> run \<Rightarrow> run" where
  "hook1 ConcreteClass1 t = t @ [Call Hook1]"
| "hook1 ConcreteClass2 t = t @ [Call Hook1, Print ''ConcreteClass2 says: Overridden Hook1'']"

fun hook2 :: "concrete_class \<Rightarrow> run \<Rightarrow> run" where
  "hook2 c t = t @ [Call Hook2]"

definition templateMethod :: "concrete_class \<Rightarrow> run \<Rightarrow> run" where
  "templateMethod this t0 =
     (let t1 = baseOperation1 t0;
          t2 = requiredOperations1 this t1;
          t3 = baseOperation2 t2;
          t4 = hook1 this t3;
          t5 = requiredOperation2 this t4;
          t6 = baseOperation3 t5;
          t7 = hook2 this t6
      in t7)"

text \<open>What can be read off a run: the steps in the order they were entered, the lines
  on the console, and the lines each step printed.\<close>

fun calls_of :: "run \<Rightarrow> step list" where
  "calls_of [] = []"
| "calls_of (Call s # t) = s # calls_of t"
| "calls_of (Print l # t) = calls_of t"

fun console_of :: "run \<Rightarrow> console" where
  "console_of [] = []"
| "console_of (Call s # t) = console_of t"
| "console_of (Print l # t) = l # console_of t"

fun printed_first :: "run \<Rightarrow> string list" where
  "printed_first [] = []"
| "printed_first (Call s # t) = []"
| "printed_first (Print l # t) = l # printed_first t"

fun segments :: "run \<Rightarrow> (step \<times> string list) list" where
  "segments [] = []"
| "segments (Call s # t) = (s, printed_first t) # segments t"
| "segments (Print l # t) = segments t"

text \<open>The lines the three base steps print, and the numbers (from 1) of the console
  lines that are among them.\<close>

definition base_lines :: "string list" where
  "base_lines =
     [''AbstractClass says: I am doing the bulk of the work'',
      ''AbstractClass says: But I let subclasses override some operations'',
      ''AbstractClass says: But I am doing the bulk of the work anyway'']"

fun base_line_numbers_from :: "nat \<Rightarrow> console \<Rightarrow> nat list" where
  "base_line_numbers_from n [] = []"
| "base_line_numbers_from n (l # out) =
     (if l \<in> set base_lines then [n] else []) @ base_line_numbers_from (Suc n) out"

definition base_line_numbers :: "console \<Rightarrow> nat list" where
  "base_line_numbers out = base_line_numbers_from 1 out"

text \<open>The base steps are the ones \<open>AbstractClass\<close> implements and no subclass overrides.
  The skeleton of a run keeps every step, and the lines of the base steps only.\<close>

fun is_base :: "step \<Rightarrow> bool" where
  "is_base BaseOperation1 = True"
| "is_base BaseOperation2 = True"
| "is_base BaseOperation3 = True"
| "is_base s = False"

definition skeleton :: "run \<Rightarrow> (step \<times> string list option) list" where
  "skeleton t = map (\<lambda>(s, ls). (s, if is_base s then Some ls else None)) (segments t)"


section \<open>Flyweight (\<open>Flyweight\<close> and \<open>FlyweightFactory\<close>)\<close>

text \<open>
  The cache \<open>this.flyweights\<close> is an ordinary object created by the literal \<open>{}\<close>, used
  as a dictionary. Three operations of the language act on it, and each is modelled as the
  language defines it for an ordinary object:

  \<^item> \<open>key in object\<close> is true when the object has the property itself or inherits it
    along its prototype chain;
  \<^item> \<open>object[key]\<close> reads the object's own property, and otherwise the inherited one;
  \<^item> \<open>object[key] = value\<close> creates or overwrites an own property, except for the key
    \<open>__proto__\<close>, an accessor of \<open>Object.prototype\<close> whose setter replaces the prototype
    of the object with \<open>value\<close> and creates no property.

  The prototype of \<open>{}\<close> is \<open>Object.prototype\<close>, whose properties are listed below
  (ECMAScript, properties of the Object prototype object, with the legacy accessors that
  V8 and the other engines define). The only objects the program ever stores are
  \<open>Flyweight\<close> instances, so the prototype of the cache is \<open>Object.prototype\<close> or a
  \<open>Flyweight\<close> instance, whose own property is \<open>sharedState\<close> and whose prototype,
  \<open>Flyweight.prototype\<close>, has \<open>constructor\<close> and \<open>operation\<close>.
\<close>

definition Object_prototype_keys :: "string list" where
  "Object_prototype_keys =
     [''constructor'', ''hasOwnProperty'', ''isPrototypeOf'', ''propertyIsEnumerable'',
      ''toLocaleString'', ''toString'', ''valueOf'', ''__proto__'',
      ''__defineGetter__'', ''__defineSetter__'', ''__lookupGetter__'', ''__lookupSetter__'']"

definition Flyweight_prototype_keys :: "string list" where
  "Flyweight_prototype_keys = [''constructor'', ''operation'']"

text \<open>The values a read of the cache can produce.\<close>

datatype jsvalue =
    FlyweightInstance ref       \<comment> \<open>a \<open>Flyweight\<close> object, by its reference\<close>
  | SharedStateOf ref           \<comment> \<open>the array in the field \<open>sharedState\<close> of an instance\<close>
  | FlyweightMember string      \<comment> \<open>\<open>Flyweight.prototype[name]\<close>: the class or its method\<close>
  | ObjectMember string         \<comment> \<open>\<open>Object.prototype[name]\<close>: a built-in function\<close>
  | ObjectPrototype             \<comment> \<open>\<open>Object.prototype\<close> itself\<close>
  | Undefined

text \<open>
  The state of a factory: the own properties of the cache in the order they were created
  (each key once), the prototype of the cache (\<^const>\<open>None\<close> for \<open>Object.prototype\<close>),
  the \<open>sharedState\<close> of every \<open>Flyweight\<close> constructed so far (a reference is an index
  into this list), and the console.
\<close>

record FlyweightFactory =
  own_properties :: "(string \<times> ref) list"
  prototype :: "ref option"
  instances :: "string list list"
  printed :: console

definition has_property :: "string \<Rightarrow> FlyweightFactory \<Rightarrow> bool" where
  "has_property key this =
     (key \<in> set (map fst (own_properties this)) \<or>
      (case prototype this of
         None \<Rightarrow> key \<in> set Object_prototype_keys
       | Some r \<Rightarrow> key = ''sharedState'' \<or> key \<in> set Flyweight_prototype_keys \<or>
                  key \<in> set Object_prototype_keys))"

definition get_property :: "string \<Rightarrow> FlyweightFactory \<Rightarrow> jsvalue" where
  "get_property key this =
     (case map_of (own_properties this) key of
        Some r \<Rightarrow> FlyweightInstance r
      | None \<Rightarrow>
          (case prototype this of
             None \<Rightarrow>
               if key = ''__proto__'' then ObjectPrototype
               else if key \<in> set Object_prototype_keys then ObjectMember key
               else Undefined
           | Some r \<Rightarrow>
               if key = ''sharedState'' then SharedStateOf r
               else if key \<in> set Flyweight_prototype_keys then FlyweightMember key
               else if key = ''__proto__'' then FlyweightInstance r
               else if key \<in> set Object_prototype_keys then ObjectMember key
               else Undefined))"

definition set_property :: "string \<Rightarrow> ref \<Rightarrow> FlyweightFactory \<Rightarrow> FlyweightFactory" where
  "set_property key r this =
     (if key = ''__proto__'' then this\<lparr>prototype := Some r\<rparr>
      else this\<lparr>own_properties := AList.update key r (own_properties this)\<rparr>)"

definition new_Flyweight :: "string list \<Rightarrow> FlyweightFactory \<Rightarrow> ref \<times> FlyweightFactory" where
  "new_Flyweight sharedState this =
     (length (instances this), this\<lparr>instances := instances this @ [sharedState]\<rparr>)"

text \<open>\<open>state.join('_')\<close>.\<close>

fun join :: "string \<Rightarrow> string list \<Rightarrow> string" where
  "join sep [] = []"
| "join sep [x] = x"
| "join sep (x # y # ys) = x @ sep @ join sep (y # ys)"

definition getKey :: "string list \<Rightarrow> string" where
  "getKey state = join ''_'' state"

text \<open>The constructor: one assignment to the cache for each initial state, in order.\<close>

definition add_initial :: "FlyweightFactory \<Rightarrow> string list \<Rightarrow> FlyweightFactory" where
  "add_initial this state =
     (let (r, this') = new_Flyweight state this in set_property (getKey state) r this')"

definition new_FlyweightFactory :: "string list list \<Rightarrow> FlyweightFactory" where
  "new_FlyweightFactory initialFlyweights =
     foldl add_initial
       \<lparr>own_properties = [], prototype = None, instances = [], printed = []\<rparr>
       initialFlyweights"

definition getFlyweight :: "string list \<Rightarrow> FlyweightFactory \<Rightarrow> jsvalue \<times> FlyweightFactory" where
  "getFlyweight sharedState this =
     (let key = getKey sharedState;
          this' =
            (if \<not> has_property key this
             then (let this1 = this\<lparr>printed := console_log
                         ''FlyweightFactory: Can't find a flyweight, creating new one.''
                         (printed this)\<rparr>;
                       (r, this2) = new_Flyweight sharedState this1
                   in set_property key r this2)
             else this\<lparr>printed := console_log
                         ''FlyweightFactory: Reusing existing flyweight.'' (printed this)\<rparr>)
      in (get_property key this', this'))"

text \<open>\<open>Object.keys(this.flyweights).length\<close>, the number \<open>listFlyweights\<close> prints: the number
  of own properties of the cache.\<close>

definition flyweight_count :: "FlyweightFactory \<Rightarrow> nat" where
  "flyweight_count this = length (own_properties this)"


text \<open>The factory of the script (its variable \<open>factory\<close>), built from five cars.\<close>

definition police_factory :: FlyweightFactory where
  "police_factory =
     new_FlyweightFactory
       [[''Chevrolet'', ''Camaro2018'', ''pink''],
        [''Mercedes Benz'', ''C300'', ''black''],
        [''Mercedes Benz'', ''C500'', ''red''],
        [''BMW'', ''M5'', ''red''],
        [''BMW'', ''X6'', ''white'']]"


section \<open>Properties of the factory\<close>

text \<open>
  Claim C7. For every string \<open>os\<close>, \<open>createButton(os)\<close> returns an \<open>IOSButton\<close> exactly when
  \<open>os\<close> is \<open>'ios'\<close>, and an \<open>AndroidButton\<close> (the default branch) for every other string; the
  result is always one of the two products, never absent.
\<close>

theorem createButton_discriminator:
  "(createButton os = IOSButton) = (os = ''ios'') \<and>
   (createButton os = AndroidButton) = (os \<noteq> ''ios'') \<and>
   createButton os \<in> {IOSButton, AndroidButton}"
  by (simp add: createButton_def)


section \<open>Properties of the iterator\<close>

lemma next_it_exhausted:
  "\<not> start it < endv it \<Longrightarrow> next_it it = (\<lparr>res_value = endv it, res_done = True\<rparr>, it)"
  by (simp add: next_it_def)

lemma next_calls_exhausted:
  "\<not> start it < endv it \<Longrightarrow> snd (next_calls k it) = it"
  by (induction k) (simp_all add: next_it_exhausted split_beta)

lemma next_calls_add:
  "snd (next_calls (m + k) it) = snd (next_calls k (snd (next_calls m it)))"
  by (induction m arbitrary: it) (simp_all add: split_beta Let_def)

lemma range_0_20_5_first_four:
  "next_calls 4 (range_it 0 20 (Some 5)) =
     ([\<lparr>res_value = 5, res_done = False\<rparr>, \<lparr>res_value = 10, res_done = False\<rparr>,
       \<lparr>res_value = 15, res_done = False\<rparr>, \<lparr>res_value = 20, res_done = False\<rparr>],
      \<lparr>start = 20, endv = 20, step = 5\<rparr>)"
  by (simp add: numeral_eq_Suc range_it_def next_it_def Let_def)

text \<open>
  Claim C3. The iterator returned by \<open>range(0, 20, 5)\<close> yields 5, 10, 15, 20 on its first
  four \<open>next()\<close> calls, each with \<open>done = false\<close>; the fifth call and every call after it
  returns \<open>done = true\<close> (with the value 20, the bound): the iterator never restarts.
\<close>

theorem range_0_20_5_sequence:
  "fst (next_calls 4 (range_it 0 20 (Some 5))) =
     [\<lparr>res_value = 5, res_done = False\<rparr>, \<lparr>res_value = 10, res_done = False\<rparr>,
      \<lparr>res_value = 15, res_done = False\<rparr>, \<lparr>res_value = 20, res_done = False\<rparr>] \<and>
   (\<forall>k. fst (next_it (snd (next_calls (4 + k) (range_it 0 20 (Some 5))))) =
          \<lparr>res_value = 20, res_done = True\<rparr>)"
proof -
  let ?it = "\<lparr>start = 20, endv = 20, step = 5\<rparr> :: range_state"
  have after: "snd (next_calls (4 + k) (range_it 0 20 (Some 5))) = ?it" for k
    by (simp only: next_calls_add range_0_20_5_first_four snd_conv)
       (simp add: next_calls_exhausted)
  show ?thesis
    by (simp only: after range_0_20_5_first_four fst_conv) (simp add: next_it_def)
qed

text \<open>
  Claim C4. For all \<open>start\<close>, \<open>end\<close> and \<open>step\<close> (given or omitted) with \<open>start \<ge> end\<close>, the
  first \<open>next()\<close> call on \<open>range(start, end, step)\<close> returns \<open>done = true\<close> together with
  the value \<open>end\<close>. The call cannot throw: \<open>next\<close> only compares and adds numbers.
\<close>

theorem range_first_next_when_empty:
  "end0 \<le> start0 \<Longrightarrow>
   fst (next_it (range_it start0 end0 step0)) = \<lparr>res_value = end0, res_done = True\<rparr>"
  by (simp add: next_it_def range_it_def)

theorem range_first_next_when_empty_witness:
  "(3::int) \<le> 7 \<and> fst (next_it (range_it 7 3 (Some 2))) = \<lparr>res_value = 3, res_done = True\<rparr>"
  using range_first_next_when_empty [of 3 7 "Some 2"] by simp


section \<open>Properties of the singleton\<close>

lemma getInstance_initial:
  "getInstance settings_initial =
     (Some 0, \<lparr>static_instance = Some 0, constructed = [\<lparr>applicationTheme = ''dark''\<rparr>]\<rparr>)"
  by (simp add: getInstance_def settings_initial_def new_ApplicationSettings_def)

lemma getInstance_cached:
  "static_instance s = Some r \<Longrightarrow> getInstance s = (Some r, s)"
  by (simp add: getInstance_def)

lemma run_settings_cached:
  "static_instance s = Some r \<Longrightarrow>
   run_settings (replicate n GetInstance) s = (replicate n (Some r), s)"
  by (induction n) (simp_all add: getInstance_cached)

lemma getInstance_constructs_at_most_one:
  "length (constructed (snd (getInstance s))) \<le> Suc (length (constructed s))"
  by (simp add: getInstance_def new_ApplicationSettings_def)

text \<open>
  Claim C6 says that any two \<open>getInstance()\<close> calls of a process return the identical
  instance. The code keeps the instance in a public, writable static field: a process that
  calls \<open>getInstance()\<close>, assigns \<open>undefined\<close> to \<open>ApplicationSettings.instance\<close> and calls
  \<open>getInstance()\<close> again gets two different references, and two \<open>ApplicationSettings\<close>
  objects have been constructed.
\<close>

theorem getInstance_after_reset:
  "run_settings [GetInstance, AssignInstance None, GetInstance] settings_initial =
     ([Some 0, Some 1],
      \<lparr>static_instance = Some 1,
         constructed = [\<lparr>applicationTheme = ''dark''\<rparr>, \<lparr>applicationTheme = ''dark''\<rparr>]\<rparr>) \<and>
   Some (0::nat) \<noteq> Some 1"
  by (simp add: getInstance_def settings_initial_def new_ApplicationSettings_def
      assign_instance_def)

text \<open>
  What holds of the singleton. In a process that only calls \<open>getInstance()\<close>, every call
  returns the reference of the first object built, and after the first call exactly one
  object has been constructed however many calls follow. In any process, with assignments
  to the field or without, objects are constructed by \<open>getInstance()\<close> calls only: their
  number grows by at most the number of such calls.
\<close>

theorem getInstance_without_assignments:
  "fst (run_settings (replicate n GetInstance) settings_initial) = replicate n (Some 0) \<and>
   constructed (snd (run_settings (replicate (Suc n) GetInstance) settings_initial)) =
     [\<lparr>applicationTheme = ''dark''\<rparr>] \<and>
   static_instance (snd (run_settings (replicate (Suc n) GetInstance) settings_initial)) =
     Some 0 \<and>
   length (constructed (snd (run_settings steps s))) \<le>
     length (constructed s) + count_list steps GetInstance"
proof -
  let ?s1 = "\<lparr>static_instance = Some 0, constructed = [\<lparr>applicationTheme = ''dark''\<rparr>]\<rparr>"
  have suc: "run_settings (replicate (Suc m) GetInstance) settings_initial =
               (replicate (Suc m) (Some 0), ?s1)" for m
    by (simp add: getInstance_initial run_settings_cached)
  have calls: "fst (run_settings (replicate n GetInstance) settings_initial) =
                 replicate n (Some 0)"
  proof (cases n)
    case 0
    then show ?thesis by simp
  next
    case (Suc m)
    then show ?thesis by (simp only: suc fst_conv)
  qed
  have built: "length (constructed (snd (run_settings steps s))) \<le>
                 length (constructed s) + count_list steps GetInstance"
  proof (induction steps arbitrary: s)
    case Nil
    then show ?case by simp
  next
    case (Cons step steps)
    show ?case
    proof (cases step)
      case GetInstance
      have "length (constructed (snd (run_settings steps (snd (getInstance s))))) \<le>
              length (constructed (snd (getInstance s))) + count_list steps GetInstance"
        by (rule Cons.IH)
      also have "\<dots> \<le> Suc (length (constructed s)) + count_list steps GetInstance"
        using getInstance_constructs_at_most_one [of s] by simp
      finally show ?thesis
        using GetInstance by (simp add: split_beta)
    next
      case (AssignInstance v)
      have "length (constructed (snd (run_settings steps (assign_instance v s)))) \<le>
              length (constructed (assign_instance v s)) + count_list steps GetInstance"
        by (rule Cons.IH)
      then show ?thesis
        using AssignInstance by (simp add: assign_instance_def)
    qed
  qed
  show ?thesis
    using calls built by (simp only: suc snd_conv) simp
qed


section \<open>Properties of the chain of responsibility\<close>

lemma monkey_squirrel_dog_heap:
  "monkey_squirrel_dog =
     ([\<lparr>handler_cls = MonkeyHandler, nextHandler = Some 1\<rparr>,
       \<lparr>handler_cls = SquirrelHandler, nextHandler = Some 2\<rparr>,
       \<lparr>handler_cls = DogHandler, nextHandler = None\<rparr>], 0, 1, 2)"
  by (simp add: monkey_squirrel_dog_def new_handler_def setNext_def)

text \<open>
  Claim C2. On the chain Monkey > Squirrel > Dog, for every request: \<open>handle\<close> called on
  the head returns, and what it returns is the reply of the first handler in chain order
  whose test accepts the request, or \<open>null\<close> when no test does (every request other than
  \<open>'Banana'\<close>, \<open>'Nut'\<close> and \<open>'MeatBall'\<close>). The handlers consulted are the ones from the head
  up to and including the one that replies, all three when none does, so no handler after
  the one that replies is consulted and none is consulted twice.
\<close>

theorem handle_first_match_wins:
  "(case monkey_squirrel_dog of
      (h, monkey, squirrel, dog) \<Rightarrow>
        distinct [monkey, squirrel, dog] \<and>
        handle h monkey request [] =
          Some (if request = ''Banana''
                then (Some ''Monkey: I'll eat the Banana.'', [monkey])
                else if request = ''Nut''
                then (Some ''Squirrel: I'll eat the Nut.'', [monkey, squirrel])
                else if request = ''MeatBall''
                then (Some ''Dog: I'll eat the MeatBall.'', [monkey, squirrel, dog])
                else (None, [monkey, squirrel, dog])) \<and>
        (\<exists>result consulted.
           handle h monkey request [] = Some (result, consulted) \<and>
           distinct consulted \<and>
           result = map_option (\<lambda>c. reply c request)
                      (find (\<lambda>c. handles c request)
                         [MonkeyHandler, SquirrelHandler, DogHandler])))"
  by (simp add: monkey_squirrel_dog_heap handle.simps)


section \<open>Properties of the buffet chain\<close>

lemma buffet_chain_heap:
  "buffet_chain japanese_menu mexican_menu =
     (\<lparr>buffets = [\<lparr>buffet_cls = JapaneseFoodBuffet, nextBuffet = Some 1, menu = 0\<rparr>,
                  \<lparr>buffet_cls = MexicanFoodBuffet, nextBuffet = None, menu = 1\<rparr>],
        arrays = [japanese_menu, mexican_menu]\<rparr>, 0, 1)"
  by (simp add: buffet_chain_def new_array_def new_buffet_def passToNextBuffet_def)

text \<open>
  Claim C9. In the buffet chain, whatever the two menus hold: \<open>addToMenu('Sushi')\<close> on the
  Japanese buffet pushes \<open>'Sushi'\<close> onto its menu and returns the success string, also when
  \<open>'Sushi'\<close> is already there, and \<open>addToMenu('Tacos')\<close> does the same on the Mexican buffet
  (called directly or reached through the Japanese one). \<open>'Yakimeshi'\<close> and \<open>'Enchiladas'\<close>
  are pushed only when the menu of their buffet does not hold them yet; when it does, the
  call returns \<open>null\<close> and leaves both menus as they were. The guard \<open>a || b && !c\<close> applies
  the test \<open>!c\<close> to the second food only.
\<close>

theorem addToMenu_duplicate_guard:
  "(case buffet_chain japanese_menu mexican_menu of
      (h, japanese, mexican) \<Rightarrow>
        arrays h = [japanese_menu, mexican_menu] \<and>
        addToMenu h japanese ''Sushi'' =
          Some (Some ''JapaneseFoodBuffet: I'll add the Sushi to my menu.'',
                h\<lparr>arrays := [japanese_menu @ [''Sushi''], mexican_menu]\<rparr>) \<and>
        addToMenu h mexican ''Tacos'' =
          Some (Some ''MexicanFoodBuffet: I'll add the Tacos to my menu.'',
                h\<lparr>arrays := [japanese_menu, mexican_menu @ [''Tacos'']]\<rparr>) \<and>
        addToMenu h japanese ''Tacos'' = addToMenu h mexican ''Tacos'' \<and>
        addToMenu h japanese ''Yakimeshi'' =
          Some (if ''Yakimeshi'' \<in> set japanese_menu then (None, h)
                else (Some ''JapaneseFoodBuffet: I'll add the Yakimeshi to my menu.'',
                      h\<lparr>arrays := [japanese_menu @ [''Yakimeshi''], mexican_menu]\<rparr>)) \<and>
        addToMenu h mexican ''Enchiladas'' =
          Some (if ''Enchiladas'' \<in> set mexican_menu then (None, h)
                else (Some ''MexicanFoodBuffet: I'll add the Enchiladas to my menu.'',
                      h\<lparr>arrays := [japanese_menu, mexican_menu @ [''Enchiladas'']]\<rparr>)) \<and>
        addToMenu h japanese ''Enchiladas'' = addToMenu h mexican ''Enchiladas'')"
  by (simp add: buffet_chain_heap addToMenu.simps)


section \<open>Properties of the invokers\<close>

text \<open>
  Claim C1 says that an operation whose command slot was never set does nothing and
  raises no error. The code raises a \<open>TypeError\<close> there: \<open>isCommand\<close> reads a property of
  the slot's value, which is \<open>undefined\<close>. On a fresh \<open>Invoker\<close>, \<open>doSomethingImportant()\<close>
  prints its first line and throws; with only \<open>onStart\<close> set it runs the start command,
  prints the two lines in between and throws at the check of \<open>onFinish\<close>. Both operations of
  a fresh \<open>SalesDepartment\<close> throw before printing anything, and so does \<open>sendAnItem()\<close> on
  the department of the script, whose \<open>sendItem\<close> slot is never set.
\<close>

theorem unset_slot_throws:
  "doSomethingImportant new_Invoker [] =
     (Inl TypeError, [''Invoker: Does anybody want something done before I begin?'']) \<and>
   doSomethingImportant (setOnStart (SimpleCommand ''Say Hi!'') new_Invoker) [] =
     (Inl TypeError,
      [''Invoker: Does anybody want something done before I begin?'',
       ''SimpleCommand: See, I can do simple things like printing (Say Hi!)'',
       ''Invoker: ...doing something really important...'',
       ''Invoker: Does anybody want something done after I finish?'']) \<and>
   receiveABunchOfItems new_SalesDepartment [] = (Inl TypeError, []) \<and>
   sendAnItem new_SalesDepartment [] = (Inl TypeError, []) \<and>
   sendAnItem salesDepartment [] = (Inl TypeError, [])"
  by (simp add: doSomethingImportant_def new_Invoker_def setOnStart_def isCommand_def
      call_execute_def console_log_def receiveABunchOfItems_def sendAnItem_def
      new_SalesDepartment_def salesDepartment_def setReceiveItems_def
      isAdministrativeAction_def)

text \<open>
  When both slots of an invoker hold a command, \<open>doSomethingImportant()\<close> returns
  normally, and the console shows its first line, the output of the start command, its
  two middle lines and the output of the finish command, in this order.
\<close>

theorem doSomethingImportant_with_commands:
  "onStart this = Some a \<Longrightarrow> onFinish this = Some b \<Longrightarrow>
   doSomethingImportant this out =
     (Inr (),
      execute b
        (console_log ''Invoker: Does anybody want something done after I finish?''
           (console_log ''Invoker: ...doing something really important...''
              (execute a
                 (console_log ''Invoker: Does anybody want something done before I begin?''
                    out)))))"
  by (simp add: doSomethingImportant_def isCommand_def call_execute_def)

theorem doSomethingImportant_with_commands_witness:
  "onStart (setOnFinish (ComplexCommand Receiver ''Send email'' ''Save report'')
              (setOnStart (SimpleCommand ''Say Hi!'') new_Invoker)) =
     Some (SimpleCommand ''Say Hi!'') \<and>
   onFinish (setOnFinish (ComplexCommand Receiver ''Send email'' ''Save report'')
               (setOnStart (SimpleCommand ''Say Hi!'') new_Invoker)) =
     Some (ComplexCommand Receiver ''Send email'' ''Save report'') \<and>
   doSomethingImportant
     (setOnFinish (ComplexCommand Receiver ''Send email'' ''Save report'')
        (setOnStart (SimpleCommand ''Say Hi!'') new_Invoker)) [] =
     (Inr (),
      [''Invoker: Does anybody want something done before I begin?'',
       ''SimpleCommand: See, I can do simple things like printing (Say Hi!)'',
       ''Invoker: ...doing something really important...'',
       ''Invoker: Does anybody want something done after I finish?'',
       ''ComplexCommand: Complex stuff should be done by a receiver object.'',
       ''Receiver: Working on (Send email.)'',
       ''Receiver: Also working on (Save report.)''])"
proof -
  let ?inv = "setOnFinish (ComplexCommand Receiver ''Send email'' ''Save report'')
                (setOnStart (SimpleCommand ''Say Hi!'') new_Invoker)"
  have a: "onStart ?inv = Some (SimpleCommand ''Say Hi!'')"
    by (simp add: setOnFinish_def setOnStart_def new_Invoker_def)
  have b: "onFinish ?inv = Some (ComplexCommand Receiver ''Send email'' ''Save report'')"
    by (simp add: setOnFinish_def setOnStart_def new_Invoker_def)
  show ?thesis
    using a b doSomethingImportant_with_commands [OF a b, of "[]"]
    by (simp add: console_log_def doSomething_def doSomethingElse_def)
qed


section \<open>Properties of the template method\<close>

text \<open>
  Claim C8 says that \<open>ConcreteClass1\<close> and \<open>ConcreteClass2\<close> print the three base-step
  lines in the same positions, interleaved identically with the output of the steps they
  override. As lines of the console they do not: the base-step lines are lines 1, 3 and 5
  of what \<open>ConcreteClass1\<close> prints and lines 1, 3 and 6 of what \<open>ConcreteClass2\<close> prints,
  whose \<open>hook1\<close> prints a line of its own before the third.
\<close>

theorem templateMethod_base_lines_shift:
  "base_line_numbers (console_of (templateMethod ConcreteClass1 [])) = [1, 3, 5] \<and>
   base_line_numbers (console_of (templateMethod ConcreteClass2 [])) = [1, 3, 6] \<and>
   base_line_numbers (console_of (templateMethod ConcreteClass1 [])) \<noteq>
     base_line_numbers (console_of (templateMethod ConcreteClass2 [])) \<and>
   console_of (templateMethod ConcreteClass1 []) ! 4 =
     ''AbstractClass says: But I am doing the bulk of the work anyway'' \<and>
   console_of (templateMethod ConcreteClass2 []) ! 4 =
     ''ConcreteClass2 says: Implemented Operation2''"
  by (simp add: templateMethod_def baseOperation1_def baseOperation2_def baseOperation3_def
      base_line_numbers_def base_lines_def)

text \<open>
  Claim C8, amended. For every concrete class, \<open>templateMethod()\<close> enters its seven steps
  in the order \<open>baseOperation1\<close>, \<open>requiredOperations1\<close>, \<open>baseOperation2\<close>, \<open>hook1\<close>,
  \<open>requiredOperation2\<close>, \<open>baseOperation3\<close>, \<open>hook2\<close>. The three base steps print the same
  three lines, in the same order and at the same steps of that order (the first, third
  and sixth) whatever the class; what the class overrides prints at the steps between
  them. On the console the base-step lines are the only lines of \<open>AbstractClass\<close>, in
  their order, for both classes; they are lines 1, 3 and 5 of the five lines of
  \<open>ConcreteClass1\<close> and lines 1, 3 and 6 of the six lines of \<open>ConcreteClass2\<close>, whose
  \<open>hook1\<close> prints one.
\<close>

theorem templateMethod_fixed_order:
  "calls_of (templateMethod c []) =
     [BaseOperation1, RequiredOperations1, BaseOperation2, Hook1, RequiredOperation2,
      BaseOperation3, Hook2] \<and>
   skeleton (templateMethod c []) =
     [(BaseOperation1, Some [''AbstractClass says: I am doing the bulk of the work'']),
      (RequiredOperations1, None),
      (BaseOperation2,
       Some [''AbstractClass says: But I let subclasses override some operations'']),
      (Hook1, None),
      (RequiredOperation2, None),
      (BaseOperation3,
       Some [''AbstractClass says: But I am doing the bulk of the work anyway'']),
      (Hook2, None)] \<and>
   console_of (templateMethod ConcreteClass1 []) =
     [''AbstractClass says: I am doing the bulk of the work'',
      ''ConcreteClass1 says: Implemented Operation1'',
      ''AbstractClass says: But I let subclasses override some operations'',
      ''ConcreteClass1 says: Implemented Operation2'',
      ''AbstractClass says: But I am doing the bulk of the work anyway''] \<and>
   console_of (templateMethod ConcreteClass2 []) =
     [''AbstractClass says: I am doing the bulk of the work'',
      ''ConcreteClass2 says: Implemented Operation1'',
      ''AbstractClass says: But I let subclasses override some operations'',
      ''ConcreteClass2 says: Overridden Hook1'',
      ''ConcreteClass2 says: Implemented Operation2'',
      ''AbstractClass says: But I am doing the bulk of the work anyway''] \<and>
   filter (\<lambda>l. l \<in> set base_lines) (console_of (templateMethod c [])) = base_lines \<and>
   base_line_numbers (console_of (templateMethod ConcreteClass1 [])) = [1, 3, 5] \<and>
   base_line_numbers (console_of (templateMethod ConcreteClass2 [])) = [1, 3, 6]"
  by (cases c)
     (simp_all add: templateMethod_def baseOperation1_def baseOperation2_def
        baseOperation3_def skeleton_def base_line_numbers_def base_lines_def)


section \<open>Properties of the flyweight factory\<close>

lemma proto_inherited: "has_property ''__proto__'' this"
  by (simp add: has_property_def Object_prototype_keys_def split: option.split)

lemma update_fresh_key: "k \<notin> fst ` set al \<Longrightarrow> AList.update k v al = al @ [(k, v)]"
  by (induction al) auto

lemma has_property_printed [simp]:
  "has_property k (this\<lparr>printed := p\<rparr>) = has_property k this"
  by (simp add: has_property_def)

lemma get_property_printed [simp]:
  "get_property k (this\<lparr>printed := p\<rparr>) = get_property k this"
  by (simp add: get_property_def cong: option.case_cong)

lemma get_property_own:
  "map_of (own_properties this) k = Some r \<Longrightarrow> get_property k this = FlyweightInstance r"
  by (simp add: get_property_def)

lemma has_property_own:
  "k \<in> fst ` set (own_properties this) \<Longrightarrow> has_property k this"
  by (simp add: has_property_def)

text \<open>The two branches of \<open>getFlyweight\<close>.\<close>

lemma getFlyweight_reuse:
  "has_property (getKey s) this \<Longrightarrow>
   getFlyweight s this =
     (get_property (getKey s) this,
      this\<lparr>printed := console_log ''FlyweightFactory: Reusing existing flyweight.''
                         (printed this)\<rparr>)"
  by (simp add: getFlyweight_def Let_def)

lemma getFlyweight_create:
  assumes "\<not> has_property (getKey s) this"
  shows "getFlyweight s this =
     (FlyweightInstance (length (instances this)),
      this\<lparr>printed := console_log
                         ''FlyweightFactory: Can't find a flyweight, creating new one.''
                         (printed this),
           instances := instances this @ [s],
           own_properties := own_properties this @ [(getKey s, length (instances this))]\<rparr>)"
proof -
  from assms have k1: "getKey s \<noteq> ''__proto__''"
    using proto_inherited by metis
  from assms have k2: "getKey s \<notin> fst ` set (own_properties this)"
    by (simp add: has_property_def)
  then have k3: "map_of (own_properties this) (getKey s) = None"
    by (simp add: map_of_eq_None_iff)
  show ?thesis
    using assms k1 k3
    by (simp add: getFlyweight_def new_Flyweight_def set_property_def get_property_def
        update_fresh_key [OF k2] map_add_def Let_def)
qed

text \<open>A second request with the same key is answered with the value of the first.\<close>

lemma getFlyweight_twice:
  assumes e: "getKey s' = getKey s"
  shows "fst (getFlyweight s' (snd (getFlyweight s this))) = fst (getFlyweight s this)"
proof (cases "has_property (getKey s) this")
  case True
  with e show ?thesis by (simp add: getFlyweight_reuse)
next
  case False
  let ?r = "length (instances this)"
  let ?this' = "snd (getFlyweight s this)"
  have own: "own_properties ?this' = own_properties this @ [(getKey s, ?r)]"
    by (simp add: getFlyweight_create [OF False])
  from False have "map_of (own_properties this) (getKey s) = None"
    by (simp add: has_property_def map_of_eq_None_iff)
  then have m: "map_of (own_properties ?this') (getKey s') = Some ?r"
    by (simp add: own e map_add_def)
  have h: "has_property (getKey s') ?this'"
    by (rule has_property_own) (simp add: own e)
  show ?thesis
    by (simp add: getFlyweight_reuse [OF h] get_property_own [OF m])
       (simp add: getFlyweight_create [OF False])
qed

text \<open>The cache never holds a key twice, so its number of own properties is the number
  of its keys.\<close>

lemma add_initial_keys_distinct:
  "distinct (map fst (own_properties this)) \<Longrightarrow>
   distinct (map fst (own_properties (add_initial this state)))"
  by (simp add: add_initial_def new_Flyweight_def set_property_def distinct_update)

lemma foldl_add_initial_keys_distinct:
  "distinct (map fst (own_properties this)) \<Longrightarrow>
   distinct (map fst (own_properties (foldl add_initial this initialFlyweights)))"
  by (induction initialFlyweights arbitrary: this) (simp_all add: add_initial_keys_distinct)

lemma new_FlyweightFactory_keys_distinct:
  "distinct (map fst (own_properties (new_FlyweightFactory initialFlyweights)))"
  by (simp add: new_FlyweightFactory_def foldl_add_initial_keys_distinct)

lemma getFlyweight_keys_distinct:
  "distinct (map fst (own_properties this)) \<Longrightarrow>
   distinct (map fst (own_properties (snd (getFlyweight s this))))"
  by (cases "has_property (getKey s) this")
     (simp_all add: getFlyweight_reuse getFlyweight_create has_property_def)

lemma new_FlyweightFactory_empty:
  "new_FlyweightFactory [] =
     \<lparr>own_properties = [], prototype = None, instances = [], printed = []\<rparr>"
  by (simp add: new_FlyweightFactory_def)

text \<open>
  Claim C5 says that a \<open>getFlyweight\<close> call whose key is not yet in the cache adds exactly
  one entry, and that the value returned is a \<open>Flyweight\<close> instance. The code decides with
  \<open>key in this.flyweights\<close>, which is also true for the names the cache inherits from
  \<open>Object.prototype\<close>. On a factory with an empty cache, \<open>getFlyweight(['constructor'])\<close>
  finds \<open>'constructor'\<close>, reports a reused flyweight, constructs nothing and returns
  \<open>Object.prototype.constructor\<close>; the cache has no entry before and none after.
\<close>

theorem getFlyweight_inherited_key:
  "getFlyweight [''constructor''] (new_FlyweightFactory []) =
     (ObjectMember ''constructor'',
      \<lparr>own_properties = [], prototype = None, instances = [],
         printed = [''FlyweightFactory: Reusing existing flyweight.'']\<rparr>) \<and>
   flyweight_count (new_FlyweightFactory []) = 0 \<and>
   flyweight_count (snd (getFlyweight [''constructor''] (new_FlyweightFactory []))) = 0"
  by (simp add: new_FlyweightFactory_empty getFlyweight_def getKey_def has_property_def
      get_property_def Object_prototype_keys_def console_log_def flyweight_count_def Let_def)

text \<open>Two requests with colliding keys, step by step, on a factory with an empty cache.\<close>

lemma first_a_b_c:
  "getFlyweight [''a'', ''b_c''] (new_FlyweightFactory []) =
     (FlyweightInstance 0,
      \<lparr>own_properties = [(''a_b_c'', 0)], prototype = None, instances = [[''a'', ''b_c'']],
         printed = [''FlyweightFactory: Can't find a flyweight, creating new one.'']\<rparr>)"
  by (simp add: new_FlyweightFactory_empty getFlyweight_def getKey_def has_property_def
      get_property_def set_property_def new_Flyweight_def Object_prototype_keys_def
      console_log_def Let_def)

lemma second_a_b_c:
  "getFlyweight [''a_b'', ''c'']
     \<lparr>own_properties = [(''a_b_c'', 0)], prototype = None, instances = [[''a'', ''b_c'']],
        printed = [''FlyweightFactory: Can't find a flyweight, creating new one.'']\<rparr> =
     (FlyweightInstance 0,
      \<lparr>own_properties = [(''a_b_c'', 0)], prototype = None, instances = [[''a'', ''b_c'']],
         printed = [''FlyweightFactory: Can't find a flyweight, creating new one.'',
                    ''FlyweightFactory: Reusing existing flyweight.'']\<rparr>)"
  by (simp add: getFlyweight_def getKey_def has_property_def get_property_def console_log_def
      Let_def)

lemma first_a_b:
  "getFlyweight [''a_b''] (new_FlyweightFactory []) =
     (FlyweightInstance 0,
      \<lparr>own_properties = [(''a_b'', 0)], prototype = None, instances = [[''a_b'']],
         printed = [''FlyweightFactory: Can't find a flyweight, creating new one.'']\<rparr>)"
  by (simp add: new_FlyweightFactory_empty getFlyweight_def getKey_def has_property_def
      get_property_def set_property_def new_Flyweight_def Object_prototype_keys_def
      console_log_def Let_def)

lemma second_a_b:
  "getFlyweight [''a'', ''b'']
     \<lparr>own_properties = [(''a_b'', 0)], prototype = None, instances = [[''a_b'']],
        printed = [''FlyweightFactory: Can't find a flyweight, creating new one.'']\<rparr> =
     (FlyweightInstance 0,
      \<lparr>own_properties = [(''a_b'', 0)], prototype = None, instances = [[''a_b'']],
         printed = [''FlyweightFactory: Can't find a flyweight, creating new one.'',
                    ''FlyweightFactory: Reusing existing flyweight.'']\<rparr>)"
  by (simp add: getFlyweight_def getKey_def has_property_def get_property_def console_log_def
      Let_def)

text \<open>
  Claim C10. \<open>getKey\<close> is not injective: \<open>['a', 'b_c']\<close> and \<open>['a_b', 'c']\<close> are different
  arrays with the same key, and so are \<open>['a_b']\<close> and \<open>['a', 'b']\<close>. Whatever the state of
  the factory, \<open>getFlyweight\<close> answers the second array of each pair with the value it
  returned for the first. On a factory with an empty cache that value is the one
  \<open>Flyweight\<close> instance constructed, and the \<open>sharedState\<close> it stores is the first array of
  the pair.
\<close>

theorem getKey_not_injective:
  "[''a'', ''b_c''] \<noteq> [''a_b'', ''c''] \<and> getKey [''a'', ''b_c''] = getKey [''a_b'', ''c''] \<and>
   [''a_b''] \<noteq> [''a'', ''b''] \<and> getKey [''a_b''] = getKey [''a'', ''b''] \<and>
   (\<forall>this. fst (getFlyweight [''a_b'', ''c''] (snd (getFlyweight [''a'', ''b_c''] this))) =
            fst (getFlyweight [''a'', ''b_c''] this)) \<and>
   (\<forall>this. fst (getFlyweight [''a'', ''b''] (snd (getFlyweight [''a_b''] this))) =
            fst (getFlyweight [''a_b''] this)) \<and>
   (let (first, this1) = getFlyweight [''a'', ''b_c''] (new_FlyweightFactory []);
        (second, this2) = getFlyweight [''a_b'', ''c''] this1
    in first = FlyweightInstance 0 \<and> second = FlyweightInstance 0 \<and>
       instances this2 = [[''a'', ''b_c'']] \<and> own_properties this2 = [(''a_b_c'', 0)]) \<and>
   (let (first, this1) = getFlyweight [''a_b''] (new_FlyweightFactory []);
        (second, this2) = getFlyweight [''a'', ''b''] this1
    in first = FlyweightInstance 0 \<and> second = FlyweightInstance 0 \<and>
       instances this2 = [[''a_b'']] \<and> own_properties this2 = [(''a_b'', 0)])"
proof -
  have k1: "getKey [''a_b'', ''c''] = getKey [''a'', ''b_c'']"
    by (simp add: getKey_def)
  have k2: "getKey [''a'', ''b''] = getKey [''a_b'']"
    by (simp add: getKey_def)
  have run1:
    "(let (first, this1) = getFlyweight [''a'', ''b_c''] (new_FlyweightFactory []);
          (second, this2) = getFlyweight [''a_b'', ''c''] this1
      in first = FlyweightInstance 0 \<and> second = FlyweightInstance 0 \<and>
         instances this2 = [[''a'', ''b_c'']] \<and> own_properties this2 = [(''a_b_c'', 0)])"
    by (simp add: first_a_b_c second_a_b_c)
  have run2:
    "(let (first, this1) = getFlyweight [''a_b''] (new_FlyweightFactory []);
          (second, this2) = getFlyweight [''a'', ''b''] this1
      in first = FlyweightInstance 0 \<and> second = FlyweightInstance 0 \<and>
         instances this2 = [[''a_b'']] \<and> own_properties this2 = [(''a_b'', 0)])"
    by (simp add: first_a_b second_a_b)
  have same1: "fst (getFlyweight [''a_b'', ''c''] (snd (getFlyweight [''a'', ''b_c''] this))) =
               fst (getFlyweight [''a'', ''b_c''] this)" for this
    by (rule getFlyweight_twice [OF k1])
  have same2: "fst (getFlyweight [''a'', ''b''] (snd (getFlyweight [''a_b''] this))) =
               fst (getFlyweight [''a_b''] this)" for this
    by (rule getFlyweight_twice [OF k2])
  show ?thesis
    using k1 k2 run1 run2 by (simp only: same1 same2) simp
qed

text \<open>
  The factory on keys that are not names of \<open>Object.prototype\<close>, while the prototype of
  the cache is \<open>Object.prototype\<close> (a request never changes it): \<open>getFlyweight\<close>
  returns a \<open>Flyweight\<close> instance, a second request with the same state returns the same
  instance, and the cache grows by exactly one entry when the key was not in it and keeps
  its size when it was.
\<close>

lemma police_factory_state:
  "police_factory =
     \<lparr>own_properties =
        [(''Chevrolet_Camaro2018_pink'', 0), (''Mercedes Benz_C300_black'', 1),
         (''Mercedes Benz_C500_red'', 2), (''BMW_M5_red'', 3), (''BMW_X6_white'', 4)],
      prototype = None,
      instances =
        [[''Chevrolet'', ''Camaro2018'', ''pink''], [''Mercedes Benz'', ''C300'', ''black''],
         [''Mercedes Benz'', ''C500'', ''red''], [''BMW'', ''M5'', ''red''],
         [''BMW'', ''X6'', ''white'']],
      printed = []\<rparr>"
  by (simp add: police_factory_def new_FlyweightFactory_def add_initial_def new_Flyweight_def
      set_property_def getKey_def)

theorem getFlyweight_ordinary_key:
  assumes p: "prototype this = None" and k: "getKey s \<notin> set Object_prototype_keys"
  shows "(\<exists>r. fst (getFlyweight s this) = FlyweightInstance r \<and>
              fst (getFlyweight s (snd (getFlyweight s this))) = FlyweightInstance r) \<and>
         flyweight_count (snd (getFlyweight s this)) =
           (if getKey s \<in> fst ` set (own_properties this) then flyweight_count this
            else flyweight_count this + 1) \<and>
         prototype (snd (getFlyweight s this)) = None"
proof (cases "getKey s \<in> fst ` set (own_properties this)")
  case True
  then have h: "has_property (getKey s) this" by (rule has_property_own)
  from True obtain r where r: "map_of (own_properties this) (getKey s) = Some r"
    by (metis map_of_eq_None_iff not_Some_eq)
  have v: "fst (getFlyweight s this) = FlyweightInstance r"
    by (simp add: getFlyweight_reuse [OF h] get_property_own [OF r])
  show ?thesis
    using True p v
    by (simp add: getFlyweight_twice)
       (simp add: getFlyweight_reuse [OF h] flyweight_count_def)
next
  case False
  with p k have h: "\<not> has_property (getKey s) this"
    by (simp add: has_property_def)
  show ?thesis
    using False p
    by (simp add: getFlyweight_twice)
       (simp add: getFlyweight_create [OF h] flyweight_count_def)
qed

theorem getFlyweight_ordinary_key_witness:
  "prototype police_factory = None \<and>
   getKey [''BMW'', ''X1'', ''red''] \<notin> set Object_prototype_keys \<and>
   fst (getFlyweight [''BMW'', ''X1'', ''red''] police_factory) = FlyweightInstance 5 \<and>
   (\<exists>r. fst (getFlyweight [''BMW'', ''X1'', ''red''] police_factory) = FlyweightInstance r \<and>
        fst (getFlyweight [''BMW'', ''X1'', ''red'']
               (snd (getFlyweight [''BMW'', ''X1'', ''red''] police_factory))) =
          FlyweightInstance r) \<and>
   flyweight_count police_factory = 5 \<and>
   flyweight_count (snd (getFlyweight [''BMW'', ''X1'', ''red''] police_factory)) = 6"
proof -
  have p: "prototype police_factory = None" by (simp add: police_factory_state)
  have k: "getKey [''BMW'', ''X1'', ''red''] \<notin> set Object_prototype_keys"
    by (simp add: getKey_def Object_prototype_keys_def)
  have n: "getKey [''BMW'', ''X1'', ''red''] \<notin> fst ` set (own_properties police_factory)"
    by (simp add: police_factory_state getKey_def)
  have h: "\<not> has_property (getKey [''BMW'', ''X1'', ''red'']) police_factory"
    using p k n by (simp add: has_property_def)
  have c: "flyweight_count police_factory = 5"
    by (simp add: police_factory_state flyweight_count_def)
  have i: "length (instances police_factory) = 5" by (simp add: police_factory_state)
  have v: "fst (getFlyweight [''BMW'', ''X1'', ''red''] police_factory) = FlyweightInstance 5"
    by (simp add: getFlyweight_create [OF h] i)
  show ?thesis
    using getFlyweight_ordinary_key [OF p k] p k n c v by simp
qed

end
